theory Spec2Isabelle
  imports Main
begin

section \<open>The bookstore client of \<^verbatim>\<open>src/App.tsx\<close>\<close>

text \<open>
  The repository is one React component, \<^verbatim>\<open>App\<close>. Its handlers read and write six
  pieces of component state and talk to a REST API through \<^verbatim>\<open>fetch\<close>. The embedding
  below keeps the component state in a record, threads it through every handler together
  with the log of the requests issued and the state of the outside world (the server),
  and turns every \<^verbatim>\<open>throw\<close> into the branch that the enclosing \<^verbatim>\<open>catch\<close> runs.

  The specification calls the fields \<^verbatim>\<open>book_name\<close> and \<^verbatim>\<open>author_name\<close> of the code
  \<open>title\<close> and \<open>author\<close>; the definitions keep the names of the code.
\<close>

subsection \<open>JavaScript numbers and the two built-ins the component calls\<close>

text \<open>
  \<^verbatim>\<open>Book.id\<close> and \<^verbatim>\<open>Book.isbn\<close> have the TypeScript type \<^verbatim>\<open>number\<close>, and
  \<^verbatim>\<open>parseInt\<close> returns a \<^verbatim>\<open>number\<close>: an IEEE 754 double. The model covers the
  values that occur here. \<open>Num n\<close> is the Number value of the integer \<open>n\<close>: \<open>n\<close>
  itself when \<open>n\<close> is a double, as every safe integer (\<open>\<bar>n\<bar> < 2 ^ 53\<close>) is, and the
  double nearest to \<open>n\<close> otherwise. \<open>NaN\<close> is what \<^verbatim>\<open>parseInt\<close> returns when it finds
  no digit, and the two infinities are what it returns beyond the largest double.
  Numbers with a fractional part have no value here, and the zero with a minus sign is
  \<open>Num 0\<close>. \<^verbatim>\<open>toString\<close> and \<^verbatim>\<open>parseInt\<close> are built-ins of the language, not code
  of the repository; they are written after the ECMAScript standard.
\<close>

datatype number = Num int | NaN | Infinity | NegInfinity

text \<open>A decimal digit as a character, and a natural number as its decimal digits.\<close>

definition digit_char :: "nat \<Rightarrow> char" where
  "digit_char d = ''0123456789'' ! d"

fun dec :: "nat \<Rightarrow> string" where
  "dec n = (if n < 10 then [digit_char n] else dec (n div 10) @ [digit_char (n mod 10)])"

declare dec.simps [simp del]

text \<open>
  The double nearest to a natural number, ties to the even significand (the rounding of
  IEEE 754 with an unbounded exponent; \<open>to_number\<close> below cuts it off at \<open>2 ^ 1024\<close>).
  A number below \<open>2 ^ 53\<close> is a double. A larger one has more than 53 bits: the 53
  leading bits \<open>q\<close> are kept, and the rest \<open>r\<close> rounds them up or down.
\<close>

fun bit_length :: "nat \<Rightarrow> nat" where
  "bit_length n = (if n = 0 then 0 else 1 + bit_length (n div 2))"

declare bit_length.simps [simp del]

definition round_double :: "nat \<Rightarrow> nat" where
  "round_double n =
     (if n < 2 ^ 53 then n
      else
        let e = bit_length n - 53;
            q = n div 2 ^ e;
            r = n mod 2 ^ e;
            h = 2 ^ (e - 1)
        in (if h < r \<or> (r = h \<and> odd q) then q + 1 else q) * 2 ^ e)"

text \<open>The Number value of a mathematical integer (the standard's conversion to a Number).\<close>

definition to_number :: "int \<Rightarrow> number" where
  "to_number i =
     (let m = round_double (nat \<bar>i\<bar>) in
      if 2 ^ 1024 \<le> m then (if i < 0 then NegInfinity else Infinity)
      else Num (if i < 0 then - int m else int m))"

text \<open>
  \<^verbatim>\<open>Number.prototype.toString()\<close> (radix 10) on an integer, after ECMAScript's
  \<^verbatim>\<open>Number::toString\<close>. The standard takes integers \<open>n\<close>, \<open>k\<close> and \<open>s\<close> such that \<open>s\<close> has
  \<open>k\<close> digits, \<open>s * 10 ^ (n - k)\<close> has the Number value \<open>x\<close>, and \<open>k\<close> is as small as
  possible; among several such \<open>s\<close> the one nearest to \<open>x\<close>. It writes the digits of
  \<open>s\<close> followed by \<open>n - k\<close> zeros when \<open>n \<le> 21\<close>, and the exponential form
  \<^verbatim>\<open>d.ddde+x\<close> with the exponent \<open>n - 1\<close> otherwise.

  \<open>candidate x D k\<close> is the \<open>s\<close> of \<open>k\<close> digits for a double \<open>x\<close> of \<open>D\<close> digits, if
  there is one: only the two multiples of \<open>10 ^ (D - k)\<close> around \<open>x\<close> can round to \<open>x\<close>.
  \<open>shortest_from\<close> tries \<open>k = 1, 2, \<dots>\<close>; at \<open>k = D\<close> the candidate is \<open>x\<close> itself.
  The one case in which \<open>n\<close> is not the number of digits of \<open>x\<close> is a power of ten just
  above \<open>x\<close> that rounds to it. A safe integer is its own shortest digits.
\<close>

definition candidate :: "nat \<Rightarrow> nat \<Rightarrow> nat \<Rightarrow> nat option" where
  "candidate x D k =
     (let p = 10 ^ (D - k);
          lo = x div p;
          hi = lo + 1;
          lo_ok = (round_double (lo * p) = x);
          hi_ok = (hi < 10 ^ k \<and> round_double (hi * p) = x)
      in if lo_ok \<and> hi_ok
         then Some (if x - lo * p < hi * p - x \<or> (x - lo * p = hi * p - x \<and> even lo) then lo else hi)
         else if lo_ok then Some lo
         else if hi_ok then Some hi
         else None)"

function shortest_from :: "nat \<Rightarrow> nat \<Rightarrow> nat \<Rightarrow> nat" where
  "shortest_from x D k =
     (if D \<le> k then x
      else (case candidate x D k of Some s \<Rightarrow> s | None \<Rightarrow> shortest_from x D (k + 1)))"
  by pat_completeness auto
termination
  by (relation "measure (\<lambda>(x, D, k). D - k)") auto

declare shortest_from.simps [simp del]

definition shortest_digits :: "nat \<Rightarrow> nat \<times> nat" where
  "shortest_digits x =
     (let D = length (dec x) in
      if round_double (10 ^ D) = x then (1, D + 1) else (shortest_from x D 1, D))"

definition toString_nat :: "nat \<Rightarrow> string" where
  "toString_nat x =
     (let y = round_double x in
      if y < 2 ^ 53 then dec y
      else
        let (s, n) = shortest_digits y; ds = dec s; k = length ds in
        if n \<le> 21 then ds @ replicate (n - k) CHR ''0''
        else (if k = 1 then ds else hd ds # CHR ''.'' # tl ds) @ ''e+'' @ dec (n - 1))"

fun toString :: "number \<Rightarrow> string" where
  "toString NaN = ''NaN''"
| "toString Infinity = ''Infinity''"
| "toString NegInfinity = ''-Infinity''"
| "toString (Num i) = (if i < 0 then CHR ''-'' # toString_nat (nat (- i)) else toString_nat (nat i))"

text \<open>
  \<^verbatim>\<open>parseInt(string)\<close> with no radix argument, after ECMAScript: skip leading white
  space, read a sign, switch to radix 16 after a \<^verbatim>\<open>0x\<close> or \<^verbatim>\<open>0X\<close> prefix, take the
  longest prefix of digits of the radix, return \<open>NaN\<close> when that prefix is empty and
  otherwise the Number value of the integer read (the standard lets an implementation
  read the decimal digits after the twentieth as zeros; the model reads them all).
  Strings are \<open>string\<close>s of 8-bit characters, so the white space is the ASCII white
  space and the no-break space.
\<close>

definition isWhiteSpace :: "char \<Rightarrow> bool" where
  "isWhiteSpace c = (of_char c \<in> {9, 10, 11, 12, 13, 32, 160 :: nat})"

definition digit_val :: "char \<Rightarrow> nat option" where
  "digit_val c =
     (let k = of_char c :: nat in
      if 48 \<le> k \<and> k \<le> 57 then Some (k - 48)
      else if 97 \<le> k \<and> k \<le> 122 then Some (k - 87)
      else if 65 \<le> k \<and> k \<le> 90 then Some (k - 55)
      else None)"

definition is_radix_digit :: "nat \<Rightarrow> char \<Rightarrow> bool" where
  "is_radix_digit R c = (case digit_val c of None \<Rightarrow> False | Some d \<Rightarrow> d < R)"

definition digits_value :: "nat \<Rightarrow> string \<Rightarrow> nat" where
  "digits_value R Z = foldl (\<lambda>acc c. acc * R + (case digit_val c of None \<Rightarrow> 0 | Some d \<Rightarrow> d)) 0 Z"

definition parseInt :: "string \<Rightarrow> number" where
  "parseInt inputString =
     (let S = dropWhile isWhiteSpace inputString;
          sign = (if S \<noteq> [] \<and> hd S = CHR ''-'' then - 1 else 1 :: int);
          S1 = (if S \<noteq> [] \<and> (hd S = CHR ''+'' \<or> hd S = CHR ''-'') then tl S else S);
          hex = (take 2 S1 = ''0x'' \<or> take 2 S1 = ''0X'');
          R = (if hex then 16 else 10);
          S2 = (if hex then drop 2 S1 else S1);
          Z = takeWhile (is_radix_digit R) S2
      in if Z = [] then NaN else to_number (sign * int (digits_value R Z)))"

subsection \<open>The data of the component\<close>

text \<open>The interfaces \<^verbatim>\<open>Book\<close> and \<^verbatim>\<open>BookFormData\<close> (lines 5 to 16).\<close>

record Book =
  id_book :: number
  book_name :: string
  author_name :: string
  isbn :: number

record BookFormData =
  book_name :: string
  author_name :: string
  isbn :: string

text \<open>
  The six \<^verbatim>\<open>useState\<close> cells of \<^verbatim>\<open>App\<close> (lines 21 to 30), with their initial
  values.
\<close>

record app_state =
  books :: "Book list"
  isFormOpen :: bool
  editingBook :: "Book option"
  formData :: BookFormData
  loading :: bool
  error :: string

definition empty_form :: BookFormData where
  "empty_form = \<lparr>BookFormData.book_name = '''', BookFormData.author_name = '''', BookFormData.isbn = ''''\<rparr>"

definition initial_state :: app_state where
  "initial_state =
     \<lparr>books = [], isFormOpen = False, editingBook = None, formData = empty_form,
      loading = False, error = ''''\<rparr>"

subsection \<open>The network\<close>

text \<open>
  A request is what the component hands to \<^verbatim>\<open>fetch\<close>: the URL, the method
  (\<^verbatim>\<open>GET\<close> when no option is given), the headers and the body. The body is kept as the
  object literal that the code passes to \<^verbatim>\<open>JSON.stringify\<close>, a list of keys and
  values in the order written.
\<close>

datatype http_method = GET | POST | PUT | DELETE

datatype json_value = JString string | JNumber number

record request =
  url :: string
  http_method :: http_method
  headers :: "(string \<times> string) list"
  body :: "(string \<times> json_value) list option"

text \<open>
  What \<^verbatim>\<open>await fetch(...)\<close> gives back: the promise is rejected (a transport error),
  or it resolves to a response with its \<^verbatim>\<open>ok\<close> flag (true on a 2xx status). \<open>json\<close>
  is the outcome of \<^verbatim>\<open>await response.json()\<close>: \<open>None\<close> when the body is not JSON
  and the call throws, otherwise the array of books of the REST contract (the code
  stores the parsed value unchecked).
\<close>

datatype response = Rejected | Response (ok: bool) (json: "Book list option")

text \<open>
  The server is not part of the repository. It is a parameter: any function from its
  state and a request to a response and its next state. Every request is answered: a
  promise that never settles, after which a handler never completes, is outside the
  model.
\<close>

type_synonym 'w network = "'w \<Rightarrow> request \<Rightarrow> response \<times> 'w"

text \<open>
  A configuration: the component state, the requests sent so far (oldest first) and the
  state of the world.
\<close>

record 'w config =
  ui :: app_state
  sent :: "request list"
  world :: 'w

definition fetch :: "'w network \<Rightarrow> request \<Rightarrow> 'w config \<Rightarrow> response \<times> 'w config" where
  "fetch net rq c =
     (let (r, w) = net (world c) rq in (r, c\<lparr>sent := sent c @ [rq], world := w\<rparr>))"

text \<open>
  The state setters returned by \<^verbatim>\<open>useState\<close>. Each call in the code passes a value,
  never an updater function, so the state after a handler is the setters applied in
  program order; what a handler reads (\<^verbatim>\<open>formData\<close>, \<^verbatim>\<open>editingBook\<close>) is the state
  of the render it was created in, the configuration it is applied to.
\<close>

definition setBooks :: "Book list \<Rightarrow> 'w config \<Rightarrow> 'w config" where
  "setBooks v c = c\<lparr>ui := (ui c)\<lparr>books := v\<rparr>\<rparr>"

definition setIsFormOpen :: "bool \<Rightarrow> 'w config \<Rightarrow> 'w config" where
  "setIsFormOpen v c = c\<lparr>ui := (ui c)\<lparr>isFormOpen := v\<rparr>\<rparr>"

definition setEditingBook :: "Book option \<Rightarrow> 'w config \<Rightarrow> 'w config" where
  "setEditingBook v c = c\<lparr>ui := (ui c)\<lparr>editingBook := v\<rparr>\<rparr>"

definition setFormData :: "BookFormData \<Rightarrow> 'w config \<Rightarrow> 'w config" where
  "setFormData v c = c\<lparr>ui := (ui c)\<lparr>formData := v\<rparr>\<rparr>"

definition setLoading :: "bool \<Rightarrow> 'w config \<Rightarrow> 'w config" where
  "setLoading v c = c\<lparr>ui := (ui c)\<lparr>loading := v\<rparr>\<rparr>"

definition setError :: "string \<Rightarrow> 'w config \<Rightarrow> 'w config" where
  "setError v c = c\<lparr>ui := (ui c)\<lparr>error := v\<rparr>\<rparr>"

subsection \<open>The handlers\<close>

text \<open>
  \<^verbatim>\<open>fetchBooks\<close> (lines 32 to 46), the Catalog Loader of the specification. The three
  ways into the \<^verbatim>\<open>catch\<close> block are a rejected \<^verbatim>\<open>fetch\<close>, a response that is not
  \<^verbatim>\<open>ok\<close>, and a body that \<^verbatim>\<open>response.json()\<close> cannot parse. \<^verbatim>\<open>console.error\<close>
  changes nothing a handler reads and is left out.
\<close>

definition fetchBooks :: "string \<Rightarrow> 'w network \<Rightarrow> 'w config \<Rightarrow> 'w config" where
  "fetchBooks API_BASE_URL net c0 =
     (let c1 = setLoading True c0;
          (response, c2) =
             fetch net \<lparr>url = API_BASE_URL @ ''/books'', http_method = GET, headers = [], body = None\<rparr> c1;
          c3 = (case response of
                  Rejected \<Rightarrow> setError ''Failed to load books. Make sure API is running.'' c2
                | Response ok_flag data \<Rightarrow>
                    if \<not> ok_flag then setError ''Failed to load books. Make sure API is running.'' c2
                    else (case data of
                            None \<Rightarrow> setError ''Failed to load books. Make sure API is running.'' c2
                          | Some bs \<Rightarrow> setError '''' (setBooks bs c2)))
      in setLoading False c3)"

text \<open>\<^verbatim>\<open>resetForm\<close> (lines 124 to 128).\<close>

definition resetForm :: "'w config \<Rightarrow> 'w config" where
  "resetForm c = setIsFormOpen False (setEditingBook None (setFormData empty_form c))"

text \<open>\<^verbatim>\<open>handleEdit\<close> (lines 114 to 122).\<close>

definition handleEdit :: "Book \<Rightarrow> 'w config \<Rightarrow> 'w config" where
  "handleEdit book c =
     setIsFormOpen True
       (setFormData
          \<lparr>BookFormData.book_name = Book.book_name book,
           BookFormData.author_name = Book.author_name book,
           BookFormData.isbn = toString (Book.isbn book)\<rparr>
          (setEditingBook (Some book) c))"

text \<open>
  \<^verbatim>\<open>handleSubmit\<close> (lines 52 to 91). A string is falsy exactly when it is empty, an
  object is truthy, so \<^verbatim>\<open>!formData.book_name\<close> is \<open>book_name = []\<close> and the test of
  \<^verbatim>\<open>editingBook\<close> is a case split on the option. \<^verbatim>\<open>fetchBooks\<close> catches its own
  failures, so after an \<^verbatim>\<open>ok\<close> response the \<^verbatim>\<open>try\<close> block runs to its end.
  \<^verbatim>\<open>e.preventDefault()\<close> touches no state of the component and is left out.
\<close>

definition handleSubmit :: "string \<Rightarrow> 'w network \<Rightarrow> 'w config \<Rightarrow> 'w config" where
  "handleSubmit API_BASE_URL net c0 =
     (let fd = formData (ui c0) in
      if BookFormData.book_name fd = [] \<or> BookFormData.author_name fd = [] \<or> BookFormData.isbn fd = []
      then setError ''All fields are required'' c0
      else
        let c1 = setLoading True c0;
            bookData =
              [(''book_name'', JString (BookFormData.book_name fd)),
               (''author_name'', JString (BookFormData.author_name fd)),
               (''isbn'', JNumber (parseInt (BookFormData.isbn fd)))];
            url = (case editingBook (ui c0) of
                     Some b \<Rightarrow> API_BASE_URL @ ''/books/'' @ toString (id_book b)
                   | None \<Rightarrow> API_BASE_URL @ ''/books'');
            method = (case editingBook (ui c0) of Some b \<Rightarrow> PUT | None \<Rightarrow> POST);
            (response, c2) =
               fetch net
                 \<lparr>url = url, http_method = method,
                  headers = [(''Content-Type'', ''application/json'')],
                  body = Some bookData\<rparr> c1;
            c3 = (case response of
                    Rejected \<Rightarrow> setError ''Failed to save book'' c2
                  | Response ok_flag data \<Rightarrow>
                      if \<not> ok_flag then setError ''Failed to save book'' c2
                      else setError '''' (resetForm (fetchBooks API_BASE_URL net c2)))
        in setLoading False c3)"

text \<open>
  \<^verbatim>\<open>handleDelete\<close> (lines 93 to 112). The answer to the \<^verbatim>\<open>confirm\<close> dialog is the
  argument \<open>confirmed\<close>.
\<close>

definition handleDelete :: "string \<Rightarrow> 'w network \<Rightarrow> bool \<Rightarrow> number \<Rightarrow> 'w config \<Rightarrow> 'w config" where
  "handleDelete API_BASE_URL net confirmed id' c0 =
     (if \<not> confirmed then c0
      else
        let c1 = setLoading True c0;
            (response, c2) =
               fetch net
                 \<lparr>url = API_BASE_URL @ ''/books/'' @ toString id', http_method = DELETE,
                  headers = [], body = None\<rparr> c1;
            c3 = (case response of
                    Rejected \<Rightarrow> setError ''Failed to delete book'' c2
                  | Response ok_flag data \<Rightarrow>
                      if \<not> ok_flag then setError ''Failed to delete book'' c2
                      else setError '''' (fetchBooks API_BASE_URL net c2))
        in setLoading False c3)"

text \<open>
  The inline handlers of the markup: the Add Book button (line 139) and the three
  \<^verbatim>\<open>onChange\<close> handlers of the inputs (lines 172, 185 and 198).
\<close>

definition openForm :: "'w config \<Rightarrow> 'w config" where
  "openForm c = setIsFormOpen True c"

definition onChange_book_name :: "string \<Rightarrow> 'w config \<Rightarrow> 'w config" where
  "onChange_book_name v c = setFormData ((formData (ui c))\<lparr>BookFormData.book_name := v\<rparr>) c"

definition onChange_author_name :: "string \<Rightarrow> 'w config \<Rightarrow> 'w config" where
  "onChange_author_name v c = setFormData ((formData (ui c))\<lparr>BookFormData.author_name := v\<rparr>) c"

definition onChange_isbn :: "string \<Rightarrow> 'w config \<Rightarrow> 'w config" where
  "onChange_isbn v c = setFormData ((formData (ui c))\<lparr>BookFormData.isbn := v\<rparr>) c"

text \<open>The effect run once on mount (lines 48 to 50).\<close>

definition mount :: "string \<Rightarrow> 'w network \<Rightarrow> 'w \<Rightarrow> 'w config" where
  "mount API_BASE_URL net w = fetchBooks API_BASE_URL net \<lparr>ui = initial_state, sent = [], world = w\<rparr>"

subsection \<open>Vocabulary for the statements\<close>

text \<open>The requests a handler has added to the log.\<close>

definition issued :: "'w config \<Rightarrow> 'w config \<Rightarrow> request list" where
  "issued c c' = drop (length (sent c)) (sent c')"

text \<open>A mutation is a create, update or delete request.\<close>

definition is_mutation :: "request \<Rightarrow> bool" where
  "is_mutation rq = (http_method rq = POST \<or> http_method rq = PUT \<or> http_method rq = DELETE)"

text \<open>The request of the Catalog Loader.\<close>

definition refresh_request :: "string \<Rightarrow> request" where
  "refresh_request API_BASE_URL =
     \<lparr>url = API_BASE_URL @ ''/books'', http_method = GET, headers = [], body = None\<rparr>"

text \<open>A mutation has failed when the promise is rejected or the status is not 2xx.\<close>

fun failed :: "response \<Rightarrow> bool" where
  "failed Rejected = True"
| "failed (Response ok_flag data) = (\<not> ok_flag)"

text \<open>
  The request that \<^verbatim>\<open>handleSubmit\<close> builds on lines 62 to 78 from the state it
  closes over, and the one \<^verbatim>\<open>handleDelete\<close> builds on lines 98 to 100; lemmas
  \<open>handleSubmit_sends\<close> and \<open>handleDelete_sends\<close> show that these are the requests
  sent.
\<close>

definition submit_request :: "string \<Rightarrow> app_state \<Rightarrow> request" where
  "submit_request API_BASE_URL s =
     \<lparr>url = (case editingBook s of
               Some b \<Rightarrow> API_BASE_URL @ ''/books/'' @ toString (id_book b)
             | None \<Rightarrow> API_BASE_URL @ ''/books''),
      http_method = (case editingBook s of Some b \<Rightarrow> PUT | None \<Rightarrow> POST),
      headers = [(''Content-Type'', ''application/json'')],
      body = Some [(''book_name'', JString (BookFormData.book_name (formData s))),
                   (''author_name'', JString (BookFormData.author_name (formData s))),
                   (''isbn'', JNumber (parseInt (BookFormData.isbn (formData s))))]\<rparr>"

definition delete_request :: "string \<Rightarrow> number \<Rightarrow> request" where
  "delete_request API_BASE_URL id' =
     \<lparr>url = API_BASE_URL @ ''/books/'' @ toString id', http_method = DELETE,
      headers = [], body = None\<rparr>"

text \<open>A draft is valid when it passes the test of line 55: no required field is empty.\<close>

definition valid_draft :: "BookFormData \<Rightarrow> bool" where
  "valid_draft fd =
     (BookFormData.book_name fd \<noteq> [] \<and> BookFormData.author_name fd \<noteq> [] \<and> BookFormData.isbn fd \<noteq> [])"

text \<open>
  The three states of the form in the specification, read off the component state as the
  markup does (line 152 shows the form when \<^verbatim>\<open>isFormOpen\<close>, lines 157 and 210 tell
  editing from creating by \<^verbatim>\<open>editingBook\<close>).
\<close>

datatype form_state = Closed | Creating | Editing Book

definition form_state_of :: "app_state \<Rightarrow> form_state" where
  "form_state_of s =
     (if isFormOpen s then (case editingBook s of None \<Rightarrow> Creating | Some b \<Rightarrow> Editing b)
      else Closed)"

text \<open>
  The events of the user interface, and which handler each one runs. The form controls
  exist only while the form is shown (line 152); the edit and delete buttons exist for
  the books of the list (lines 235 to 252). A handler runs to its end before the next
  event (the specification's single thread of control).
\<close>

datatype event =
    OpenForm
  | Edit Book
  | ChangeBookName string
  | ChangeAuthorName string
  | ChangeIsbn string
  | Submit
  | Cancel
  | Delete bool Book

fun enabled :: "event \<Rightarrow> app_state \<Rightarrow> bool" where
  "enabled OpenForm s = True"
| "enabled (Edit b) s = (b \<in> set (books s))"
| "enabled (Delete answer b) s = (b \<in> set (books s))"
| "enabled (ChangeBookName v) s = isFormOpen s"
| "enabled (ChangeAuthorName v) s = isFormOpen s"
| "enabled (ChangeIsbn v) s = isFormOpen s"
| "enabled Submit s = isFormOpen s"
| "enabled Cancel s = isFormOpen s"

fun fire :: "string \<Rightarrow> 'w network \<Rightarrow> event \<Rightarrow> 'w config \<Rightarrow> 'w config" where
  "fire API_BASE_URL net OpenForm c = openForm c"
| "fire API_BASE_URL net (Edit b) c = handleEdit b c"
| "fire API_BASE_URL net (Delete answer b) c = handleDelete API_BASE_URL net answer (id_book b) c"
| "fire API_BASE_URL net (ChangeBookName v) c = onChange_book_name v c"
| "fire API_BASE_URL net (ChangeAuthorName v) c = onChange_author_name v c"
| "fire API_BASE_URL net (ChangeIsbn v) c = onChange_isbn v c"
| "fire API_BASE_URL net Submit c = handleSubmit API_BASE_URL net c"
| "fire API_BASE_URL net Cancel c = resetForm c"

text \<open>A session: the events in order; \<open>None\<close> when an event has no control to come from.\<close>

fun run :: "string \<Rightarrow> 'w network \<Rightarrow> event list \<Rightarrow> 'w config \<Rightarrow> 'w config option" where
  "run API_BASE_URL net [] c = Some c"
| "run API_BASE_URL net (e # es) c =
     (if enabled e (ui c) then run API_BASE_URL net es (fire API_BASE_URL net e c) else None)"

text \<open>While the form is closed, the draft is empty and no book is being edited.\<close>

definition form_inv :: "app_state \<Rightarrow> bool" where
  "form_inv s = (isFormOpen s \<or> (editingBook s = None \<and> formData s = empty_form))"

text \<open>A server that answers from a script, one response per request, for the examples.\<close>

fun scripted :: "response list network" where
  "scripted [] rq = (Rejected, [])"
| "scripted (r # rs) rq = (r, rs)"

subsection \<open>Concrete inputs for the examples\<close>

definition example_base :: string where
  "example_base = ''http://localhost:8000''"

definition dune :: Book where
  "dune = \<lparr>id_book = Num 3, Book.book_name = ''Dune'', Book.author_name = ''Herbert'',
           Book.isbn = Num 9780441013593\<rparr>"

text \<open>The component after mounting on an empty catalog.\<close>

definition mounted :: "response list \<Rightarrow> response list config" where
  "mounted script = mount example_base scripted (Response True (Some []) # script)"

text \<open>
  The draft of the specification's example, typed into the form opened for a new book.
\<close>

definition dune_typed :: "response list \<Rightarrow> response list config" where
  "dune_typed script =
     onChange_isbn ''9780441013593''
       (onChange_author_name ''Herbert''
          (onChange_book_name ''Dune'' (openForm (mounted script))))"

text \<open>The component showing the catalog that holds \<open>dune\<close>.\<close>

definition showing_dune :: "response list \<Rightarrow> response list config" where
  "showing_dune script = mount example_base scripted (Response True (Some [dune]) # script)"

text \<open>
  The specification's second example: \<open>dune\<close> opened for edit, the author changed.
\<close>

definition dune_edited :: "response list \<Rightarrow> response list config" where
  "dune_edited script =
     onChange_author_name ''Frank Herbert'' (handleEdit dune (showing_dune script))"

section \<open>Theorems\<close>

subsection \<open>Digits: \<^verbatim>\<open>parseInt\<close> reads back what \<^verbatim>\<open>toString\<close> writes\<close>

lemma dec_digit: "n < 10 \<Longrightarrow> dec n = [digit_char n]"
  by (simp add: dec.simps)

lemma digit_cases: "d < 10 \<Longrightarrow> d \<in> {0, 1, 2, 3, 4, 5, 6, 7, 8, 9 :: nat}"
  by auto

lemma digit_val_digit_char: "d < 10 \<Longrightarrow> digit_val (digit_char d) = Some d"
  using digit_cases [of d] by (auto simp: digit_val_def digit_char_def)

lemma digit_char_not_space: "d < 10 \<Longrightarrow> \<not> isWhiteSpace (digit_char d)"
  using digit_cases [of d] by (auto simp: isWhiteSpace_def digit_char_def)

lemma digit_char_not_special:
  "d < 10 \<Longrightarrow> digit_char d \<notin> {CHR ''+'', CHR ''-'', CHR ''x'', CHR ''X''}"
  using digit_cases [of d] by (auto simp: digit_char_def)

lemma dec_snoc: "10 \<le> n \<Longrightarrow> dec n = dec (n div 10) @ [digit_char (n mod 10)]"
  by (subst dec.simps) simp

lemma dec_digits: "c \<in> set (dec n) \<Longrightarrow> \<exists>d<10. c = digit_char d"
proof (induction n rule: dec.induct)
  case (1 n)
  show ?case
  proof (cases "n < 10")
    case True
    with "1.prems" show ?thesis by (auto simp: dec_digit)
  next
    case False
    with "1.prems" have "c \<in> set (dec (n div 10)) \<or> c = digit_char (n mod 10)"
      by (auto simp add: dec_snoc)
    then show ?thesis
    proof
      assume "c \<in> set (dec (n div 10))"
      with False "1.IH" show ?thesis by simp
    next
      assume "c = digit_char (n mod 10)"
      moreover have "n mod 10 < 10" by simp
      ultimately show ?thesis by blast
    qed
  qed
qed

lemma dec_not_Nil: "dec n \<noteq> []"
  by (subst dec.simps) simp

lemma dec_value: "digits_value 10 (dec n) = n"
proof (induction n rule: dec.induct)
  case (1 n)
  show ?case
  proof (cases "n < 10")
    case True
    then show ?thesis by (simp add: dec_digit digits_value_def digit_val_digit_char)
  next
    case False
    with "1.IH" have "digits_value 10 (dec (n div 10)) = n div 10" by simp
    with False show ?thesis
      by (simp add: dec_snoc digits_value_def digit_val_digit_char)
  qed
qed

lemma dec_all_radix_digits: "takeWhile (is_radix_digit 10) (dec n) = dec n"
proof -
  have "is_radix_digit 10 c" if mem: "c \<in> set (dec n)" for c
  proof -
    obtain d where "d < 10" "c = digit_char d" using dec_digits [OF mem] by blast
    then show ?thesis by (simp add: is_radix_digit_def digit_val_digit_char)
  qed
  then show ?thesis by (simp add: takeWhile_eq_all_conv)
qed

lemma dec_hd: "\<exists>d<10. hd (dec n) = digit_char d"
  using dec_digits [of "hd (dec n)" n] dec_not_Nil [of n] by simp

lemma dec_no_hex_prefix: "take 2 (dec n) \<noteq> ''0x'' \<and> take 2 (dec n) \<noteq> ''0X''"
proof -
  have "CHR ''x'' \<notin> set (dec n)" "CHR ''X'' \<notin> set (dec n)"
    using dec_digits digit_char_not_special by fastforce+
  moreover have "set (take 2 (dec n)) \<subseteq> set (dec n)" by (rule set_take_subset)
  ultimately show ?thesis by auto
qed

lemma round_double_safe: "n < 2 ^ 53 \<Longrightarrow> round_double n = n"
  by (simp add: round_double_def)

lemma to_number_safe: "\<bar>i\<bar> < 2 ^ 53 \<Longrightarrow> to_number i = Num i"
proof -
  assume safe: "\<bar>i\<bar> < 2 ^ 53"
  then have n: "nat \<bar>i\<bar> < 2 ^ 53" by (simp add: nat_less_iff)
  have "(2::nat) ^ 53 \<le> 2 ^ 1024" by (rule power_increasing) simp_all
  with n have "\<not> (2::nat) ^ 1024 \<le> nat \<bar>i\<bar>" by linarith
  with n show ?thesis by (simp add: to_number_def round_double_safe Let_def del: power_numeral)
qed

lemma parseInt_dec: "parseInt (dec n) = to_number (int n)"
proof -
  obtain d where d: "d < 10" "hd (dec n) = digit_char d" using dec_hd by blast
  have ws: "dropWhile isWhiteSpace (dec n) = dec n"
    using d dec_not_Nil [of n] digit_char_not_space [of d] by (cases "dec n") auto
  have sign: "hd (dec n) \<noteq> CHR ''-''" "hd (dec n) \<noteq> CHR ''+''"
    using d digit_char_not_special [of d] by auto
  show ?thesis
    using ws sign dec_no_hex_prefix [of n] dec_not_Nil [of n]
    by (simp add: parseInt_def Let_def dec_all_radix_digits dec_value)
qed

lemma parseInt_minus_dec: "parseInt (CHR ''-'' # dec n) = to_number (- int n)"
proof -
  have ws: "\<not> isWhiteSpace CHR ''-''" by (simp add: isWhiteSpace_def)
  show ?thesis
    using ws dec_no_hex_prefix [of n] dec_not_Nil [of n]
    by (simp add: parseInt_def Let_def dec_all_radix_digits dec_value)
qed

lemma toString_nat_safe: "n < 2 ^ 53 \<Longrightarrow> toString_nat n = dec n"
  by (simp add: toString_nat_def round_double_safe Let_def)

text \<open>
  On the safe integers \<^verbatim>\<open>toString\<close> writes the decimal digits, with a minus sign in
  front of a negative number, and \<^verbatim>\<open>parseInt\<close> reads the same integer back.
\<close>

lemma parseInt_toString: "\<bar>i\<bar> < 2 ^ 53 \<Longrightarrow> parseInt (toString (Num i)) = Num i"
proof (cases "i < 0")
  case True
  assume safe: "\<bar>i\<bar> < 2 ^ 53"
  with True have "nat (- i) < 2 ^ 53" by (simp add: nat_less_iff)
  moreover from safe have "to_number (- int (nat (- i))) = Num i"
    using True by (simp add: to_number_safe)
  ultimately show ?thesis using True by (simp add: toString_nat_safe parseInt_minus_dec)
next
  case False
  assume safe: "\<bar>i\<bar> < 2 ^ 53"
  with False have "nat i < 2 ^ 53" by (simp add: nat_less_iff)
  moreover from safe have "to_number (int (nat i)) = Num i"
    using False by (simp add: to_number_safe)
  ultimately show ?thesis using False by (simp add: toString_nat_safe parseInt_dec)
qed

lemma toString_safe_not_Nil: "\<bar>i\<bar> < 2 ^ 53 \<Longrightarrow> toString (Num i) \<noteq> []"
proof (cases "i < 0")
  case True
  then show ?thesis by simp
next
  case False
  assume "\<bar>i\<bar> < 2 ^ 53"
  with False have "nat i < 2 ^ 53" by (simp add: nat_less_iff)
  with False show ?thesis by (simp add: toString_nat_safe dec_not_Nil)
qed

subsection \<open>The handlers, case by case\<close>

lemmas setters =
  setBooks_def setIsFormOpen_def setEditingBook_def setFormData_def setLoading_def setError_def

lemma fetchBooks_sent: "sent (fetchBooks base net c) = sent c @ [refresh_request base]"
  by (cases "net (world c) (refresh_request base)")
     (simp add: fetchBooks_def fetch_def setters refresh_request_def Let_def
        split: response.splits option.splits)

lemma fetchBooks_world: "world (fetchBooks base net c) = snd (net (world c) (refresh_request base))"
  by (cases "net (world c) (refresh_request base)")
     (simp add: fetchBooks_def fetch_def setters refresh_request_def Let_def
        split: response.splits option.splits)

lemma fetchBooks_form:
  "isFormOpen (ui (fetchBooks base net c)) = isFormOpen (ui c)
   \<and> editingBook (ui (fetchBooks base net c)) = editingBook (ui c)
   \<and> formData (ui (fetchBooks base net c)) = formData (ui c)"
  by (cases "net (world c) (refresh_request base)")
     (simp add: fetchBooks_def fetch_def setters refresh_request_def Let_def
        split: response.splits option.splits)

lemma handleSubmit_invalid:
  "\<not> valid_draft (formData (ui c)) \<Longrightarrow>
     handleSubmit base net c = setError ''All fields are required'' c"
  by (auto simp add: handleSubmit_def valid_draft_def Let_def)

lemma handleSubmit_failed:
  assumes "valid_draft (formData (ui c))"
    and "net (world c) (submit_request base (ui c)) = (r, w)"
    and "failed r"
  shows "handleSubmit base net c =
           c\<lparr>ui := (ui c)\<lparr>loading := False, error := ''Failed to save book''\<rparr>,
             sent := sent c @ [submit_request base (ui c)], world := w\<rparr>"
  using assms
  by (cases r)
     (simp_all add: handleSubmit_def valid_draft_def Let_def fetch_def setters submit_request_def)

lemma handleSubmit_ok:
  assumes "valid_draft (formData (ui c))"
    and "net (world c) (submit_request base (ui c)) = (r, w)"
    and "\<not> failed r"
  shows "handleSubmit base net c =
           setLoading False (setError [] (resetForm (fetchBooks base net
             (c\<lparr>ui := (ui c)\<lparr>loading := True\<rparr>,
                sent := sent c @ [submit_request base (ui c)], world := w\<rparr>))))"
  using assms
  by (cases r)
     (simp_all add: handleSubmit_def valid_draft_def Let_def fetch_def setters submit_request_def)

lemma handleDelete_failed:
  assumes "net (world c) (delete_request base i) = (r, w)" and "failed r"
  shows "handleDelete base net True i c =
           c\<lparr>ui := (ui c)\<lparr>loading := False, error := ''Failed to delete book''\<rparr>,
             sent := sent c @ [delete_request base i], world := w\<rparr>"
  using assms
  by (cases r) (simp_all add: handleDelete_def Let_def fetch_def setters delete_request_def)

lemma handleDelete_ok:
  assumes "net (world c) (delete_request base i) = (r, w)" and "\<not> failed r"
  shows "handleDelete base net True i c =
           setLoading False (setError [] (fetchBooks base net
             (c\<lparr>ui := (ui c)\<lparr>loading := True\<rparr>,
                sent := sent c @ [delete_request base i], world := w\<rparr>)))"
  using assms
  by (cases r) (simp_all add: handleDelete_def Let_def fetch_def setters delete_request_def)

lemma fetchBooks_ui:
  assumes "net (world c) (refresh_request base) = (r, w)"
  shows "ui (fetchBooks base net c) =
           (case r of
              Response True (Some bs) \<Rightarrow> (ui c)\<lparr>books := bs, loading := False, error := []\<rparr>
            | _ \<Rightarrow> (ui c)\<lparr>loading := False,
                        error := ''Failed to load books. Make sure API is running.''\<rparr>)"
  using assms
  by (simp add: fetchBooks_def fetch_def setters refresh_request_def Let_def
        split: response.splits option.splits bool.splits)

lemma fetchBooks_issued: "issued c (fetchBooks base net c) = [refresh_request base]"
  by (simp add: issued_def fetchBooks_sent)

text \<open>The requests each handler sends, in order.\<close>

lemma handleSubmit_sends:
  "issued c (handleSubmit base net c) =
     (if \<not> valid_draft (formData (ui c)) then []
      else if failed (fst (net (world c) (submit_request base (ui c))))
        then [submit_request base (ui c)]
        else [submit_request base (ui c), refresh_request base])"
proof (cases "valid_draft (formData (ui c))")
  case False
  then show ?thesis by (simp add: handleSubmit_invalid issued_def setters)
next
  case True
  obtain r w where rw: "net (world c) (submit_request base (ui c)) = (r, w)"
    by (cases "net (world c) (submit_request base (ui c))")
  show ?thesis
  proof (cases "failed r")
    case True
    with \<open>valid_draft (formData (ui c))\<close> rw show ?thesis
      by (simp add: handleSubmit_failed issued_def)
  next
    case False
    with \<open>valid_draft (formData (ui c))\<close> rw show ?thesis
      by (simp add: handleSubmit_ok issued_def setters resetForm_def fetchBooks_sent)
  qed
qed

lemma handleDelete_sends:
  "issued c (handleDelete base net confirmed i c) =
     (if \<not> confirmed then []
      else if failed (fst (net (world c) (delete_request base i)))
        then [delete_request base i]
        else [delete_request base i, refresh_request base])"
proof (cases confirmed)
  case False
  then show ?thesis by (simp add: handleDelete_def issued_def)
next
  case True
  obtain r w where rw: "net (world c) (delete_request base i) = (r, w)"
    by (cases "net (world c) (delete_request base i)")
  show ?thesis
  proof (cases "failed r")
    case True
    with \<open>confirmed\<close> rw show ?thesis
      by (simp add: handleDelete_failed issued_def)
  next
    case False
    with \<open>confirmed\<close> rw show ?thesis
      by (simp add: handleDelete_ok issued_def setters fetchBooks_sent)
  qed
qed

lemma is_mutation_requests:
  "is_mutation (submit_request base s)" "is_mutation (delete_request base i)"
  "\<not> is_mutation (refresh_request base)"
  by (simp_all add: is_mutation_def submit_request_def delete_request_def refresh_request_def
        split: option.splits)

text \<open>The form: what each handler leaves of it, and the invariant of a session.\<close>

lemma handleSubmit_form:
  "(isFormOpen (ui (handleSubmit base net c)), editingBook (ui (handleSubmit base net c)),
    formData (ui (handleSubmit base net c))) =
     (if valid_draft (formData (ui c)) \<and> \<not> failed (fst (net (world c) (submit_request base (ui c))))
      then (False, None, empty_form)
      else (isFormOpen (ui c), editingBook (ui c), formData (ui c)))"
proof (cases "valid_draft (formData (ui c))")
  case False
  then show ?thesis by (simp add: handleSubmit_invalid setters)
next
  case True
  obtain r w where rw: "net (world c) (submit_request base (ui c)) = (r, w)"
    by (cases "net (world c) (submit_request base (ui c))")
  show ?thesis
  proof (cases "failed r")
    case True
    with \<open>valid_draft (formData (ui c))\<close> rw show ?thesis
      by (simp add: handleSubmit_failed)
  next
    case False
    with \<open>valid_draft (formData (ui c))\<close> rw show ?thesis
      by (simp add: handleSubmit_ok setters resetForm_def)
  qed
qed

lemma handleDelete_form:
  "isFormOpen (ui (handleDelete base net answer i c)) = isFormOpen (ui c)
   \<and> editingBook (ui (handleDelete base net answer i c)) = editingBook (ui c)
   \<and> formData (ui (handleDelete base net answer i c)) = formData (ui c)"
proof (cases answer)
  case False
  then show ?thesis by (simp add: handleDelete_def)
next
  case True
  obtain r w where rw: "net (world c) (delete_request base i) = (r, w)"
    by (cases "net (world c) (delete_request base i)")
  show ?thesis
  proof (cases "failed r")
    case True
    with \<open>answer\<close> rw show ?thesis by (simp add: handleDelete_failed)
  next
    case False
    with \<open>answer\<close> rw show ?thesis by (simp add: handleDelete_ok setters fetchBooks_form)
  qed
qed

lemma mount_form_inv: "form_inv (ui (mount base net w))"
  by (simp add: mount_def form_inv_def fetchBooks_form initial_state_def)

lemma fire_form_inv:
  assumes "form_inv (ui c)" and "enabled e (ui c)"
  shows "form_inv (ui (fire base net e c))"
proof (cases e)
  case Submit
  with assms show ?thesis
    using handleSubmit_form [of base net c] by (auto simp: form_inv_def split: if_splits)
next
  case (Delete answer b)
  with assms show ?thesis
    using handleDelete_form [of base net answer "id_book b" c] by (simp add: form_inv_def)
qed (use assms in \<open>simp_all add: form_inv_def openForm_def handleEdit_def resetForm_def
       onChange_book_name_def onChange_author_name_def onChange_isbn_def setters\<close>)

lemma run_form_inv:
  "form_inv (ui c) \<Longrightarrow> run base net es c = Some c' \<Longrightarrow> form_inv (ui c')"
proof (induction es arbitrary: c)
  case Nil
  then show ?case by simp
next
  case (Cons e es)
  from Cons.prems(2) have en: "enabled e (ui c)" and rest: "run base net es (fire base net e c) = Some c'"
    by (simp_all split: if_splits)
  from Cons.prems(1) en have "form_inv (ui (fire base net e c))" by (rule fire_form_inv)
  then show ?case using rest by (rule Cons.IH)
qed

subsection \<open>The examples, evaluated\<close>

lemmas number_eval =
  parseInt_def isWhiteSpace_def is_radix_digit_def digit_val_def digits_value_def
  to_number_def toString_nat_def shortest_digits_def shortest_from.simps candidate_def
  round_double_def bit_length.simps dec.simps digit_char_def Let_def

lemma parseInt_dune: "parseInt ''9780441013593'' = Num 9780441013593"
  by (simp add: number_eval)

lemma toString_nat_3: "toString_nat 3 = ''3''"
  by (simp add: number_eval)

lemma toString_nat_dune_isbn: "toString_nat 9780441013593 = ''9780441013593''"
  by (simp add: number_eval)

lemma parseInt_point_5: "parseInt ''.5'' = NaN"
  by (simp add: number_eval)

lemma parseInt_1e21: "parseInt ''1e+21'' = Num 1"
  by (simp add: number_eval)

lemma toString_nat_1e21: "toString_nat 1000000000000000000000 = ''1e+21''"
  by (simp add: number_eval)

text \<open>
  Beyond the safe integers the two built-ins round: \<^verbatim>\<open>parseInt\<close> to the nearest
  double, \<^verbatim>\<open>toString\<close> to the shortest digits that identify the double.
\<close>

lemma parseInt_rounds: "parseInt ''9007199254740993'' = Num 9007199254740992"
  by (simp add: number_eval)

lemma toString_nat_shortest: "toString_nat 1152921504606846976 = ''1152921504606847000''"
  by (simp add: number_eval)

lemma toString_nat_below_1e21: "toString_nat 999999999999999999999 = ''1e+21''"
  by (simp add: number_eval)

lemma mounted_eq:
  "mounted script = \<lparr>ui = initial_state, sent = [refresh_request example_base], world = script\<rparr>"
  by (simp add: mounted_def mount_def fetchBooks_def fetch_def setters Let_def
        initial_state_def refresh_request_def)

lemma dune_typed_eq:
  "dune_typed script =
     \<lparr>ui = initial_state\<lparr>isFormOpen := True,
            formData := \<lparr>BookFormData.book_name = ''Dune'', BookFormData.author_name = ''Herbert'',
                         BookFormData.isbn = ''9780441013593''\<rparr>\<rparr>,
      sent = [refresh_request example_base], world = script\<rparr>"
  by (simp add: dune_typed_def mounted_eq setters initial_state_def openForm_def
        onChange_book_name_def onChange_author_name_def onChange_isbn_def empty_form_def)

lemma showing_dune_eq:
  "showing_dune script =
     \<lparr>ui = initial_state\<lparr>books := [dune]\<rparr>, sent = [refresh_request example_base], world = script\<rparr>"
  by (simp add: showing_dune_def mount_def fetchBooks_def fetch_def setters Let_def
        initial_state_def refresh_request_def)

lemma dune_edited_eq:
  "dune_edited script =
     \<lparr>ui = initial_state\<lparr>books := [dune], isFormOpen := True, editingBook := Some dune,
            formData := \<lparr>BookFormData.book_name = ''Dune'', BookFormData.author_name = ''Frank Herbert'',
                         BookFormData.isbn = ''9780441013593''\<rparr>\<rparr>,
      sent = [refresh_request example_base], world = script\<rparr>"
  by (simp add: dune_edited_def showing_dune_eq handleEdit_def onChange_author_name_def setters
        initial_state_def dune_def toString_nat_dune_isbn)

section \<open>The claims\<close>

text \<open>
  C1. For every valid draft, submit builds the request payload with exactly the three
  fields \<^verbatim>\<open>book_name\<close>, \<^verbatim>\<open>author_name\<close> and \<^verbatim>\<open>isbn\<close> (the specification's title,
  author and isbn): the first two are the draft's strings, and \<^verbatim>\<open>isbn\<close> is
  \<^verbatim>\<open>parseInt\<close> of the draft's isbn text. The payload is the body of the one mutation
  request that the handler sends.
\<close>

theorem C1_payload:
  assumes "valid_draft (formData (ui c))"
  shows "map body (filter is_mutation (issued c (handleSubmit base net c))) =
           [Some [(''book_name'', JString (BookFormData.book_name (formData (ui c)))),
                  (''author_name'', JString (BookFormData.author_name (formData (ui c)))),
                  (''isbn'', JNumber (parseInt (BookFormData.isbn (formData (ui c)))))]]"
  using assms
  by (simp add: handleSubmit_sends is_mutation_requests) (simp add: submit_request_def)

text \<open>The specification's example: the draft Dune, Herbert, 9780441013593.\<close>

theorem C1_payload_witness:
  "map body (filter is_mutation
      (issued (dune_typed [Response True None, Response True (Some [dune])])
         (handleSubmit example_base scripted
            (dune_typed [Response True None, Response True (Some [dune])])))) =
     [Some [(''book_name'', JString ''Dune''), (''author_name'', JString ''Herbert''),
            (''isbn'', JNumber (Num 9780441013593))]]"
proof -
  have v: "valid_draft (formData (ui (dune_typed [Response True None, Response True (Some [dune])])))"
    by (simp add: dune_typed_eq valid_draft_def)
  from C1_payload [OF v, of example_base scripted] show ?thesis
    by (simp add: dune_typed_eq parseInt_dune)
qed

text \<open>
  C2. For every valid draft, submitting issues exactly one mutation request: a
  \<^verbatim>\<open>PUT\<close> to \<^verbatim>\<open>/books/{id}\<close> with the id of the record being edited when there is
  one, otherwise a \<^verbatim>\<open>POST\<close> to \<^verbatim>\<open>/books\<close>; never both.
\<close>

theorem C2_one_mutation_call:
  assumes "valid_draft (formData (ui c))"
  shows "map (\<lambda>rq. (http_method rq, url rq)) (filter is_mutation (issued c (handleSubmit base net c))) =
           [case editingBook (ui c) of
              Some b \<Rightarrow> (PUT, base @ ''/books/'' @ toString (id_book b))
            | None \<Rightarrow> (POST, base @ ''/books'')]"
  using assms
  by (simp add: handleSubmit_sends is_mutation_requests)
     (simp add: submit_request_def split: option.splits)

text \<open>
  Both examples of the specification: the new book is posted to \<^verbatim>\<open>/books\<close>, the
  edited record 3 is put to \<^verbatim>\<open>/books/3\<close>.
\<close>

theorem C2_one_mutation_call_witness:
  "map (\<lambda>rq. (http_method rq, url rq))
     (filter is_mutation
        (issued (dune_typed [Response True None, Response True (Some [dune])])
           (handleSubmit example_base scripted
              (dune_typed [Response True None, Response True (Some [dune])])))) =
     [(POST, ''http://localhost:8000/books'')]
   \<and> map (\<lambda>rq. (http_method rq, url rq))
     (filter is_mutation
        (issued (dune_edited [Response False None])
           (handleSubmit example_base scripted (dune_edited [Response False None])))) =
     [(PUT, ''http://localhost:8000/books/3'')]"
proof -
  have v1: "valid_draft (formData (ui (dune_typed [Response True None, Response True (Some [dune])])))"
    by (simp add: dune_typed_eq valid_draft_def)
  have v2: "valid_draft (formData (ui (dune_edited [Response False None])))"
    by (simp add: dune_edited_eq valid_draft_def)
  from C2_one_mutation_call [OF v1, of example_base scripted]
    C2_one_mutation_call [OF v2, of example_base scripted]
  show ?thesis
    by (simp add: dune_typed_eq dune_edited_eq example_base_def initial_state_def dune_def toString_nat_3)
qed

text \<open>
  C3. For every draft with at least one required field empty, submit performs no network
  call, sets the validation error message, and returns with the book list, the draft and
  the form-open flag unchanged (as are the record being edited and the loading flag).
\<close>

theorem C3_empty_field_rejected:
  assumes "BookFormData.book_name (formData (ui c)) = []
           \<or> BookFormData.author_name (formData (ui c)) = []
           \<or> BookFormData.isbn (formData (ui c)) = []"
  shows "issued c (handleSubmit base net c) = []
         \<and> world (handleSubmit base net c) = world c
         \<and> error (ui (handleSubmit base net c)) = ''All fields are required''
         \<and> books (ui (handleSubmit base net c)) = books (ui c)
         \<and> formData (ui (handleSubmit base net c)) = formData (ui c)
         \<and> isFormOpen (ui (handleSubmit base net c)) = isFormOpen (ui c)
         \<and> editingBook (ui (handleSubmit base net c)) = editingBook (ui c)
         \<and> loading (ui (handleSubmit base net c)) = loading (ui c)"
proof -
  from assms have "\<not> valid_draft (formData (ui c))"
    by (auto simp: valid_draft_def)
  then have "handleSubmit base net c = setError ''All fields are required'' c"
    by (rule handleSubmit_invalid)
  then show ?thesis by (simp add: setters issued_def)
qed

text \<open>The Dune draft with its isbn erased: nothing is sent, the script is untouched.\<close>

theorem C3_empty_field_rejected_witness:
  "issued (onChange_isbn [] (dune_typed [Response True None]))
     (handleSubmit example_base scripted (onChange_isbn [] (dune_typed [Response True None]))) = []
   \<and> world (handleSubmit example_base scripted (onChange_isbn [] (dune_typed [Response True None])))
       = [Response True None]
   \<and> error (ui (handleSubmit example_base scripted (onChange_isbn [] (dune_typed [Response True None]))))
       = ''All fields are required''
   \<and> isFormOpen (ui (handleSubmit example_base scripted (onChange_isbn [] (dune_typed [Response True None]))))"
proof -
  have e: "BookFormData.book_name (formData (ui (onChange_isbn [] (dune_typed [Response True None])))) = []
           \<or> BookFormData.author_name (formData (ui (onChange_isbn [] (dune_typed [Response True None])))) = []
           \<or> BookFormData.isbn (formData (ui (onChange_isbn [] (dune_typed [Response True None])))) = []"
    by (simp add: dune_typed_eq onChange_isbn_def setters)
  from C3_empty_field_rejected [OF e, of example_base scripted] show ?thesis
    by (simp add: dune_typed_eq onChange_isbn_def setters initial_state_def)
qed

text \<open>
  C4. When the request of a mutation fails (the promise is rejected or the status is not
  2xx), the book list after the handler equals the list before it: the component state
  changes in the error message and the loading flag only. The first part is create and
  update, the second delete.
\<close>

theorem C4_failed_mutation_keeps_list:
  "(valid_draft (formData (ui c)) \<and> failed (fst (net (world c) (submit_request base (ui c))))
      \<longrightarrow> books (ui (handleSubmit base net c)) = books (ui c)
        \<and> ui (handleSubmit base net c) = (ui c)\<lparr>loading := False, error := ''Failed to save book''\<rparr>)
   \<and> (failed (fst (net (world c) (delete_request base i)))
      \<longrightarrow> books (ui (handleDelete base net True i c)) = books (ui c)
        \<and> ui (handleDelete base net True i c) = (ui c)\<lparr>loading := False, error := ''Failed to delete book''\<rparr>)"
proof -
  obtain r w where rw: "net (world c) (submit_request base (ui c)) = (r, w)"
    by (cases "net (world c) (submit_request base (ui c))")
  obtain r' w' where rw': "net (world c) (delete_request base i) = (r', w')"
    by (cases "net (world c) (delete_request base i)")
  have "ui (handleSubmit base net c) = (ui c)\<lparr>loading := False, error := ''Failed to save book''\<rparr>"
    if "valid_draft (formData (ui c))" "failed r"
    using that rw by (simp add: handleSubmit_failed)
  moreover have "ui (handleDelete base net True i c) = (ui c)\<lparr>loading := False, error := ''Failed to delete book''\<rparr>"
    if "failed r'"
    using that rw' by (simp add: handleDelete_failed)
  ultimately show ?thesis using rw rw' by simp
qed

text \<open>
  An update answered with a non-2xx status, a create whose request is rejected, and a
  delete whose request is rejected.
\<close>

theorem C4_failed_mutation_keeps_list_witness:
  "books (ui (handleSubmit example_base scripted (dune_edited [Response False None]))) = [dune]
   \<and> error (ui (handleSubmit example_base scripted (dune_edited [Response False None])))
       = ''Failed to save book''
   \<and> books (ui (handleSubmit example_base scripted (dune_typed []))) = []
   \<and> books (ui (handleDelete example_base scripted True (Num 3) (showing_dune [Rejected]))) = [dune]
   \<and> error (ui (handleDelete example_base scripted True (Num 3) (showing_dune [Rejected])))
       = ''Failed to delete book''"
  using
    C4_failed_mutation_keeps_list [of "dune_edited [Response False None]" scripted example_base "Num 3"]
    C4_failed_mutation_keeps_list [of "dune_typed []" scripted example_base "Num 3"]
    C4_failed_mutation_keeps_list [of "showing_dune [Rejected]" scripted example_base "Num 3"]
  by (simp add: dune_typed_eq dune_edited_eq showing_dune_eq valid_draft_def initial_state_def)

text \<open>
  C5. The form follows the state machine closed, creating, editing. Open-for-edit goes to
  editing with the draft filled from the record (the isbn as \<^verbatim>\<open>toString\<close> writes it);
  cancel and a successful submit go to closed with the draft empty and no record being
  edited; a submit whose request fails leaves the form in its state with the draft intact
  and the error shown; and from a closed form reached in any session, open-for-create
  goes to creating with an empty draft.
\<close>

theorem C5_form_state_machine:
  "(form_state_of (ui (handleEdit book c)) = Editing book
      \<and> formData (ui (handleEdit book c)) =
          \<lparr>BookFormData.book_name = Book.book_name book,
           BookFormData.author_name = Book.author_name book,
           BookFormData.isbn = toString (Book.isbn book)\<rparr>)
   \<and> (form_state_of (ui (resetForm c)) = Closed
      \<and> formData (ui (resetForm c)) = empty_form \<and> editingBook (ui (resetForm c)) = None)
   \<and> (valid_draft (formData (ui c)) \<and> \<not> failed (fst (net (world c) (submit_request base (ui c))))
      \<longrightarrow> form_state_of (ui (handleSubmit base net c)) = Closed
        \<and> formData (ui (handleSubmit base net c)) = empty_form
        \<and> editingBook (ui (handleSubmit base net c)) = None)
   \<and> (valid_draft (formData (ui c)) \<and> failed (fst (net (world c) (submit_request base (ui c))))
      \<longrightarrow> form_state_of (ui (handleSubmit base net c)) = form_state_of (ui c)
        \<and> isFormOpen (ui (handleSubmit base net c)) = isFormOpen (ui c)
        \<and> formData (ui (handleSubmit base net c)) = formData (ui c)
        \<and> error (ui (handleSubmit base net c)) = ''Failed to save book'')
   \<and> (run base net es (mount base net w) = Some c \<and> form_state_of (ui c) = Closed
      \<longrightarrow> form_state_of (ui (openForm c)) = Creating
        \<and> formData (ui (openForm c)) = empty_form)"
proof -
  have edit: "form_state_of (ui (handleEdit book c)) = Editing book
      \<and> formData (ui (handleEdit book c)) =
          \<lparr>BookFormData.book_name = Book.book_name book,
           BookFormData.author_name = Book.author_name book,
           BookFormData.isbn = toString (Book.isbn book)\<rparr>"
    by (simp add: handleEdit_def setters form_state_of_def)
  have cancel: "form_state_of (ui (resetForm c)) = Closed
      \<and> formData (ui (resetForm c)) = empty_form \<and> editingBook (ui (resetForm c)) = None"
    by (simp add: resetForm_def setters form_state_of_def)
  have success: "form_state_of (ui (handleSubmit base net c)) = Closed
        \<and> formData (ui (handleSubmit base net c)) = empty_form
        \<and> editingBook (ui (handleSubmit base net c)) = None"
    if "valid_draft (formData (ui c))" "\<not> failed (fst (net (world c) (submit_request base (ui c))))"
    using that handleSubmit_form [of base net c] by (simp add: form_state_of_def)
  have failure: "form_state_of (ui (handleSubmit base net c)) = form_state_of (ui c)
        \<and> isFormOpen (ui (handleSubmit base net c)) = isFormOpen (ui c)
        \<and> formData (ui (handleSubmit base net c)) = formData (ui c)
        \<and> error (ui (handleSubmit base net c)) = ''Failed to save book''"
    if v: "valid_draft (formData (ui c))" and f: "failed (fst (net (world c) (submit_request base (ui c))))"
  proof -
    obtain r w' where rw: "net (world c) (submit_request base (ui c)) = (r, w')"
      by (cases "net (world c) (submit_request base (ui c))")
    with f have "failed r" by simp
    with v rw show ?thesis by (simp add: handleSubmit_failed form_state_of_def)
  qed
  have create: "form_state_of (ui (openForm c)) = Creating \<and> formData (ui (openForm c)) = empty_form"
    if r: "run base net es (mount base net w) = Some c" and cl: "form_state_of (ui c) = Closed"
  proof -
    from mount_form_inv r have "form_inv (ui c)" by (rule run_form_inv)
    moreover from cl have "\<not> isFormOpen (ui c)"
      by (simp add: form_state_of_def split: if_splits option.splits)
    ultimately show ?thesis
      by (simp add: form_inv_def openForm_def setters form_state_of_def)
  qed
  from edit cancel success failure create show ?thesis by blast
qed

text \<open>
  The five transitions on the examples; the closed form of the last one is reached by
  opening the form, typing a title and cancelling.
\<close>

theorem C5_form_state_machine_witness:
  "form_state_of (ui (handleEdit dune (showing_dune []))) = Editing dune
   \<and> formData (ui (handleEdit dune (showing_dune []))) =
       \<lparr>BookFormData.book_name = ''Dune'', BookFormData.author_name = ''Herbert'',
        BookFormData.isbn = ''9780441013593''\<rparr>
   \<and> form_state_of (ui (resetForm (dune_edited []))) = Closed
   \<and> formData (ui (resetForm (dune_edited []))) = empty_form
   \<and> form_state_of (ui (handleSubmit example_base scripted
        (dune_typed [Response True None, Response True (Some [dune])]))) = Closed
   \<and> formData (ui (handleSubmit example_base scripted
        (dune_typed [Response True None, Response True (Some [dune])]))) = empty_form
   \<and> form_state_of (ui (handleSubmit example_base scripted (dune_edited [Response False None])))
       = Editing dune
   \<and> formData (ui (handleSubmit example_base scripted (dune_edited [Response False None]))) =
       \<lparr>BookFormData.book_name = ''Dune'', BookFormData.author_name = ''Frank Herbert'',
        BookFormData.isbn = ''9780441013593''\<rparr>
   \<and> error (ui (handleSubmit example_base scripted (dune_edited [Response False None])))
       = ''Failed to save book''
   \<and> form_state_of (ui (openForm (resetForm (onChange_book_name ''Dune'' (openForm (mounted []))))))
       = Creating
   \<and> formData (ui (openForm (resetForm (onChange_book_name ''Dune'' (openForm (mounted []))))))
       = empty_form"
proof -
  have session:
    "run example_base scripted [OpenForm, ChangeBookName ''Dune'', Cancel]
       (mount example_base scripted [Response True (Some [])])
     = Some (resetForm (onChange_book_name ''Dune'' (openForm (mounted []))))"
    by (simp add: mounted_def openForm_def onChange_book_name_def setters)
  have closed: "form_state_of (ui (resetForm (onChange_book_name ''Dune'' (openForm (mounted []))))) = Closed"
    by (simp add: resetForm_def setters form_state_of_def)
  have ok: "valid_draft (formData (ui (dune_typed [Response True None, Response True (Some [dune])])))
     \<and> \<not> failed (fst (scripted (world (dune_typed [Response True None, Response True (Some [dune])]))
           (submit_request example_base (ui (dune_typed [Response True None, Response True (Some [dune])])))))"
    by (simp add: dune_typed_eq valid_draft_def)
  have bad: "valid_draft (formData (ui (dune_edited [Response False None])))
     \<and> failed (fst (scripted (world (dune_edited [Response False None]))
           (submit_request example_base (ui (dune_edited [Response False None])))))"
    by (simp add: dune_edited_eq valid_draft_def)
  have before: "form_state_of (ui (dune_edited [Response False None])) = Editing dune
     \<and> formData (ui (dune_edited [Response False None])) =
       \<lparr>BookFormData.book_name = ''Dune'', BookFormData.author_name = ''Frank Herbert'',
        BookFormData.isbn = ''9780441013593''\<rparr>"
    by (simp add: dune_edited_eq form_state_of_def)
  have isbn: "toString (Book.isbn dune) = ''9780441013593''"
    by (simp add: dune_def toString_nat_dune_isbn)
  from
    C5_form_state_machine [where book = dune and c = "showing_dune []"]
    C5_form_state_machine [where c = "dune_edited []"]
    C5_form_state_machine [where c = "dune_typed [Response True None, Response True (Some [dune])]"
      and net = scripted and base = example_base]
    C5_form_state_machine [where c = "dune_edited [Response False None]"
      and net = scripted and base = example_base]
    C5_form_state_machine [where c = "resetForm (onChange_book_name ''Dune'' (openForm (mounted [])))"
      and net = scripted and base = example_base
      and es = "[OpenForm, ChangeBookName ''Dune'', Cancel]" and w = "[Response True (Some [])]"]
    session closed ok bad before isbn
  show ?thesis by (simp add: dune_def)
qed

text \<open>
  C6, as the code has it. A run of the Catalog Loader sends one \<^verbatim>\<open>GET\<close> to
  \<^verbatim>\<open>/books\<close>. On a 2xx response whose body parses, the book list is replaced by the
  fetched collection and the error message is cleared. When the request is rejected, the
  status is not 2xx, or the status is 2xx and the body does not parse, the error message
  is set and the book list is left unchanged.
\<close>

theorem C6_catalog_loader:
  "(fst (net (world c) (refresh_request base)) = Response True (Some bs)
      \<longrightarrow> books (ui (fetchBooks base net c)) = bs \<and> error (ui (fetchBooks base net c)) = [])
   \<and> (fst (net (world c) (refresh_request base)) = Rejected
       \<or> fst (net (world c) (refresh_request base)) = Response False d
       \<or> fst (net (world c) (refresh_request base)) = Response True None
      \<longrightarrow> books (ui (fetchBooks base net c)) = books (ui c)
        \<and> error (ui (fetchBooks base net c)) = ''Failed to load books. Make sure API is running.'')
   \<and> issued c (fetchBooks base net c) = [refresh_request base]"
proof -
  obtain r w where rw: "net (world c) (refresh_request base) = (r, w)"
    by (cases "net (world c) (refresh_request base)")
  from fetchBooks_ui [where net = net, OF rw] rw show ?thesis
    by (auto simp: fetchBooks_issued)
qed

text \<open>
  A catalog holding \<open>dune\<close> is loaded on mount; the specification's example, a
  status 500 on startup, leaves the list empty under the error banner; a rejected
  refresh leaves the list that was shown.
\<close>

theorem C6_catalog_loader_witness:
  "books (ui (mount example_base scripted [Response True (Some [dune])])) = [dune]
   \<and> error (ui (mount example_base scripted [Response True (Some [dune])])) = []
   \<and> books (ui (mount example_base scripted [Response False None])) = []
   \<and> error (ui (mount example_base scripted [Response False None]))
       = ''Failed to load books. Make sure API is running.''
   \<and> books (ui (fetchBooks example_base scripted (showing_dune [Rejected]))) = [dune]
   \<and> error (ui (fetchBooks example_base scripted (showing_dune [Rejected])))
       = ''Failed to load books. Make sure API is running.''"
  using
    C6_catalog_loader [of scripted "\<lparr>ui = initial_state, sent = [], world = [Response True (Some [dune])]\<rparr>"
      example_base "[dune]" None]
    C6_catalog_loader [of scripted "\<lparr>ui = initial_state, sent = [], world = [Response False None]\<rparr>"
      example_base "[]" None]
    C6_catalog_loader [of scripted "showing_dune [Rejected]" example_base "[]" None]
  by (simp add: mount_def showing_dune_eq initial_state_def)

text \<open>
  C6 as the specification states it fails: a 2xx response whose body is not JSON is a
  successful response in the claim's sense, yet \<^verbatim>\<open>response.json()\<close> throws inside
  the \<^verbatim>\<open>try\<close> block, so the error message is set, not cleared, and the list is not
  replaced.
\<close>

theorem C6_counterexample:
  "fst (scripted (world (showing_dune [Response True None])) (refresh_request example_base))
     = Response True None
   \<and> ok (Response True None)
   \<and> error (ui (fetchBooks example_base scripted (showing_dune [Response True None])))
       = ''Failed to load books. Make sure API is running.''
   \<and> books (ui (fetchBooks example_base scripted (showing_dune [Response True None]))) = [dune]"
  by (simp add: showing_dune_eq fetchBooks_def fetch_def setters Let_def initial_state_def)

text \<open>
  C7. Delete asks for confirmation first. Without it the handler returns the
  configuration it was given: no request, no change of state. With it, exactly one
  mutation request is sent, a \<^verbatim>\<open>DELETE\<close> to \<^verbatim>\<open>/books/{id}\<close>; and when that request
  succeeds the Catalog Loader runs next, on the state the server is in after the delete.
\<close>

theorem C7_delete_needs_confirmation:
  "handleDelete base net False i c = c
   \<and> issued c (handleDelete base net False i c) = []
   \<and> filter is_mutation (issued c (handleDelete base net True i c)) =
        [\<lparr>url = base @ ''/books/'' @ toString i, http_method = DELETE, headers = [], body = None\<rparr>]
   \<and> (\<not> failed (fst (net (world c) (delete_request base i)))
      \<longrightarrow> issued c (handleDelete base net True i c) = [delete_request base i, refresh_request base]
        \<and> handleDelete base net True i c =
            setLoading False (setError [] (fetchBooks base net
              (c\<lparr>ui := (ui c)\<lparr>loading := True\<rparr>,
                 sent := sent c @ [delete_request base i],
                 world := snd (net (world c) (delete_request base i))\<rparr>))))"
proof -
  obtain r w where rw: "net (world c) (delete_request base i) = (r, w)"
    by (cases "net (world c) (delete_request base i)")
  have "handleDelete base net False i c = c"
    by (simp add: handleDelete_def)
  moreover have "issued c (handleDelete base net False i c) = []"
    by (simp add: handleDelete_sends)
  moreover have "filter is_mutation (issued c (handleDelete base net True i c)) =
        [\<lparr>url = base @ ''/books/'' @ toString i, http_method = DELETE, headers = [], body = None\<rparr>]"
    by (simp add: handleDelete_sends is_mutation_requests) (simp add: delete_request_def)
  moreover have "issued c (handleDelete base net True i c) = [delete_request base i, refresh_request base]"
    if "\<not> failed r"
    using that rw by (simp add: handleDelete_sends)
  moreover have "handleDelete base net True i c =
            setLoading False (setError [] (fetchBooks base net
              (c\<lparr>ui := (ui c)\<lparr>loading := True\<rparr>,
                 sent := sent c @ [delete_request base i], world := w\<rparr>)))"
    if "\<not> failed r"
    using that rw by (simp add: handleDelete_ok)
  ultimately show ?thesis using rw by simp
qed

text \<open>
  Deleting book 3 from the catalog that holds it: declined, nothing happens; confirmed,
  the delete is followed by the refresh, which shows the empty catalog.
\<close>

theorem C7_delete_needs_confirmation_witness:
  "handleDelete example_base scripted False (Num 3) (showing_dune [Response True None, Response True (Some [])])
     = showing_dune [Response True None, Response True (Some [])]
   \<and> map (\<lambda>rq. (http_method rq, url rq))
       (issued (showing_dune [Response True None, Response True (Some [])])
          (handleDelete example_base scripted True (Num 3)
             (showing_dune [Response True None, Response True (Some [])])))
       = [(DELETE, ''http://localhost:8000/books/3''), (GET, ''http://localhost:8000/books'')]
   \<and> books (ui (handleDelete example_base scripted True (Num 3)
        (showing_dune [Response True None, Response True (Some [])]))) = []"
proof -
  have ok: "\<not> failed (fst (scripted (world (showing_dune [Response True None, Response True (Some [])]))
              (delete_request example_base (Num 3))))"
    by (simp add: showing_dune_eq)
  from C7_delete_needs_confirmation [of example_base scripted "Num 3"
      "showing_dune [Response True None, Response True (Some [])]"] ok
  show ?thesis
    by (simp add: showing_dune_eq delete_request_def refresh_request_def example_base_def
          toString_nat_3 fetchBooks_def fetch_def setters Let_def initial_state_def issued_def)
qed

text \<open>
  C8. In every run of a mutation handler the requests go out in program order: nothing
  when the handler returns early, the mutation request alone when its response is a
  failure, and the mutation request followed by the refresh when its response is ok.
  The refresh is answered by the world as the mutation's response left it, so it is
  initiated after that response has been received, never before or instead of the
  mutation.
\<close>

theorem C8_refresh_follows_mutation:
  "issued c (handleSubmit base net c) =
     (if \<not> valid_draft (formData (ui c)) then []
      else if failed (fst (net (world c) (submit_request base (ui c))))
        then [submit_request base (ui c)]
        else [submit_request base (ui c), refresh_request base])
   \<and> (valid_draft (formData (ui c)) \<and> \<not> failed (fst (net (world c) (submit_request base (ui c))))
      \<longrightarrow> handleSubmit base net c =
            setLoading False (setError [] (resetForm (fetchBooks base net
              (c\<lparr>ui := (ui c)\<lparr>loading := True\<rparr>,
                 sent := sent c @ [submit_request base (ui c)],
                 world := snd (net (world c) (submit_request base (ui c)))\<rparr>))))
        \<and> world (handleSubmit base net c) =
            snd (net (snd (net (world c) (submit_request base (ui c)))) (refresh_request base)))
   \<and> issued c (handleDelete base net confirmed i c) =
     (if \<not> confirmed then []
      else if failed (fst (net (world c) (delete_request base i)))
        then [delete_request base i]
        else [delete_request base i, refresh_request base])
   \<and> (confirmed \<and> \<not> failed (fst (net (world c) (delete_request base i)))
      \<longrightarrow> handleDelete base net confirmed i c =
            setLoading False (setError [] (fetchBooks base net
              (c\<lparr>ui := (ui c)\<lparr>loading := True\<rparr>,
                 sent := sent c @ [delete_request base i],
                 world := snd (net (world c) (delete_request base i))\<rparr>)))
        \<and> world (handleDelete base net confirmed i c) =
            snd (net (snd (net (world c) (delete_request base i))) (refresh_request base)))
   \<and> is_mutation (submit_request base (ui c)) \<and> is_mutation (delete_request base i)
   \<and> \<not> is_mutation (refresh_request base)"
proof -
  obtain r w where rw: "net (world c) (submit_request base (ui c)) = (r, w)"
    by (cases "net (world c) (submit_request base (ui c))")
  obtain r' w' where rw': "net (world c) (delete_request base i) = (r', w')"
    by (cases "net (world c) (delete_request base i)")
  have submit: "handleSubmit base net c =
            setLoading False (setError [] (resetForm (fetchBooks base net
              (c\<lparr>ui := (ui c)\<lparr>loading := True\<rparr>,
                 sent := sent c @ [submit_request base (ui c)], world := w\<rparr>))))"
    if "valid_draft (formData (ui c))" "\<not> failed r"
    using that rw by (simp add: handleSubmit_ok)
  have submit_world: "world (handleSubmit base net c) = snd (net w (refresh_request base))"
    if "valid_draft (formData (ui c))" "\<not> failed r"
    by (simp add: submit [OF that] setters resetForm_def fetchBooks_world)
  have delete: "handleDelete base net True i c =
            setLoading False (setError [] (fetchBooks base net
              (c\<lparr>ui := (ui c)\<lparr>loading := True\<rparr>,
                 sent := sent c @ [delete_request base i], world := w'\<rparr>)))"
    if "\<not> failed r'"
    using that rw' by (simp add: handleDelete_ok)
  have delete_world: "world (handleDelete base net True i c) = snd (net w' (refresh_request base))"
    if "\<not> failed r'"
    by (simp add: delete [OF that] setters fetchBooks_world)
  from submit submit_world delete delete_world rw rw' show ?thesis
    by (simp add: handleSubmit_sends handleDelete_sends is_mutation_requests)
qed

text \<open>
  A create and a delete that succeed are each followed by the refresh, whose answer is
  the list shown; an update that fails is followed by nothing, although the script holds
  a further response.
\<close>

theorem C8_refresh_follows_mutation_witness:
  "map (\<lambda>rq. (http_method rq, url rq))
     (issued (dune_typed [Response True None, Response True (Some [dune])])
        (handleSubmit example_base scripted
           (dune_typed [Response True None, Response True (Some [dune])])))
     = [(POST, ''http://localhost:8000/books''), (GET, ''http://localhost:8000/books'')]
   \<and> books (ui (handleSubmit example_base scripted
        (dune_typed [Response True None, Response True (Some [dune])]))) = [dune]
   \<and> world (handleSubmit example_base scripted
        (dune_typed [Response True None, Response True (Some [dune])])) = []
   \<and> map (\<lambda>rq. (http_method rq, url rq))
     (issued (showing_dune [Response True None, Response True (Some [])])
        (handleDelete example_base scripted True (Num 3)
           (showing_dune [Response True None, Response True (Some [])])))
     = [(DELETE, ''http://localhost:8000/books/3''), (GET, ''http://localhost:8000/books'')]
   \<and> map (\<lambda>rq. (http_method rq, url rq))
     (issued (dune_edited [Response False None, Response True (Some [])])
        (handleSubmit example_base scripted (dune_edited [Response False None, Response True (Some [])])))
     = [(PUT, ''http://localhost:8000/books/3'')]"
proof -
  have ok1: "valid_draft (formData (ui (dune_typed [Response True None, Response True (Some [dune])])))
     \<and> \<not> failed (fst (scripted (world (dune_typed [Response True None, Response True (Some [dune])]))
           (submit_request example_base (ui (dune_typed [Response True None, Response True (Some [dune])])))))"
    by (simp add: dune_typed_eq valid_draft_def)
  have ok2: "\<not> failed (fst (scripted (world (showing_dune [Response True None, Response True (Some [])]))
              (delete_request example_base (Num 3))))"
    by (simp add: showing_dune_eq)
  have bad: "valid_draft (formData (ui (dune_edited [Response False None, Response True (Some [])])))
     \<and> failed (fst (scripted (world (dune_edited [Response False None, Response True (Some [])]))
           (submit_request example_base (ui (dune_edited [Response False None, Response True (Some [])])))))"
    by (simp add: dune_edited_eq valid_draft_def)
  from
    C8_refresh_follows_mutation [of "dune_typed [Response True None, Response True (Some [dune])]"
      example_base scripted True "Num 3"]
    C8_refresh_follows_mutation [of "showing_dune [Response True None, Response True (Some [])]"
      example_base scripted True "Num 3"]
    C8_refresh_follows_mutation [of "dune_edited [Response False None, Response True (Some [])]"
      example_base scripted True "Num 3"]
    ok1 ok2 bad
  show ?thesis
    by (simp add: dune_typed_eq showing_dune_eq dune_edited_eq submit_request_def delete_request_def
          refresh_request_def example_base_def toString_nat_3 fetchBooks_def fetch_def setters
          resetForm_def Let_def initial_state_def issued_def dune_def valid_draft_def)
qed

text \<open>
  C9, as the code has it. For every draft whose title and author are not empty and whose
  isbn text is not empty but has no digits that \<^verbatim>\<open>parseInt\<close> can read (it returns
  \<open>NaN\<close>), validation passes and the one mutation request carries the payload whose
  \<^verbatim>\<open>isbn\<close> is \<open>NaN\<close>, which is not an integer.
\<close>

theorem C9_unparseable_isbn_is_sent:
  assumes "BookFormData.book_name (formData (ui c)) \<noteq> []"
    and "BookFormData.author_name (formData (ui c)) \<noteq> []"
    and "BookFormData.isbn (formData (ui c)) \<noteq> []"
    and "parseInt (BookFormData.isbn (formData (ui c))) = NaN"
  shows "map body (filter is_mutation (issued c (handleSubmit base net c))) =
           [Some [(''book_name'', JString (BookFormData.book_name (formData (ui c)))),
                  (''author_name'', JString (BookFormData.author_name (formData (ui c)))),
                  (''isbn'', JNumber NaN)]]
         \<and> error (ui (handleSubmit base net c)) \<noteq> ''All fields are required''"
proof -
  from assms(1-3) have v: "valid_draft (formData (ui c))"
    by (simp add: valid_draft_def)
  obtain r w where rw: "net (world c) (submit_request base (ui c)) = (r, w)"
    by (cases "net (world c) (submit_request base (ui c))")
  have "error (ui (handleSubmit base net c)) \<noteq> ''All fields are required''"
  proof (cases "failed r")
    case True
    with v rw show ?thesis by (simp add: handleSubmit_failed)
  next
    case False
    with v rw show ?thesis by (simp add: handleSubmit_ok setters)
  qed
  moreover from v assms(4)
  have "map body (filter is_mutation (issued c (handleSubmit base net c))) =
           [Some [(''book_name'', JString (BookFormData.book_name (formData (ui c)))),
                  (''author_name'', JString (BookFormData.author_name (formData (ui c)))),
                  (''isbn'', JNumber NaN)]]"
    by (simp add: handleSubmit_sends is_mutation_requests) (simp add: submit_request_def)
  ultimately show ?thesis by simp
qed

text \<open>
  The isbn text \<^verbatim>\<open>.5\<close>, which a number input accepts, in the Dune draft.
\<close>

theorem C9_unparseable_isbn_is_sent_witness:
  "map body (filter is_mutation
      (issued (onChange_isbn ''.5'' (dune_typed [Response True None, Response True (Some [])]))
         (handleSubmit example_base scripted
            (onChange_isbn ''.5'' (dune_typed [Response True None, Response True (Some [])]))))) =
     [Some [(''book_name'', JString ''Dune''), (''author_name'', JString ''Herbert''),
            (''isbn'', JNumber NaN)]]"
proof -
  have fd: "formData (ui (onChange_isbn ''.5'' (dune_typed [Response True None, Response True (Some [])])))
      = \<lparr>BookFormData.book_name = ''Dune'', BookFormData.author_name = ''Herbert'',
         BookFormData.isbn = ''.5''\<rparr>"
    by (simp add: dune_typed_eq onChange_isbn_def setters)
  from C9_unparseable_isbn_is_sent
    [of "onChange_isbn ''.5'' (dune_typed [Response True None, Response True (Some [])])"
      example_base scripted]
  show ?thesis by (simp add: fd parseInt_point_5)
qed

text \<open>
  C9 as stated quantifies over every draft with such an isbn text. It fails when the
  title is empty: the isbn text \<^verbatim>\<open>.5\<close> is not empty and does not parse, yet the
  test of line 55 rejects the draft and no request is sent.
\<close>

theorem C9_counterexample:
  "BookFormData.isbn (formData (ui (onChange_isbn ''.5'' (onChange_book_name [] (dune_typed [Response True None]))))) \<noteq> []
   \<and> parseInt (BookFormData.isbn (formData (ui (onChange_isbn ''.5'' (onChange_book_name [] (dune_typed [Response True None])))))) = NaN
   \<and> issued (onChange_isbn ''.5'' (onChange_book_name [] (dune_typed [Response True None])))
        (handleSubmit example_base scripted
           (onChange_isbn ''.5'' (onChange_book_name [] (dune_typed [Response True None])))) = []
   \<and> error (ui (handleSubmit example_base scripted
        (onChange_isbn ''.5'' (onChange_book_name [] (dune_typed [Response True None])))))
       = ''All fields are required''"
  by (simp add: dune_typed_eq onChange_isbn_def onChange_book_name_def setters parseInt_point_5
        handleSubmit_def issued_def Let_def)

text \<open>
  C10, as the code has it. For every book record whose title and author are not empty
  and whose isbn is a safe integer (\<open>\<bar>isbn\<bar> < 2 ^ 53\<close>, as every ISBN is), opening it
  for edit fills the draft with the record's fields, the isbn as its decimal digits, and
  submitting the untouched draft sends one \<^verbatim>\<open>PUT\<close> to \<^verbatim>\<open>/books/{id}\<close> whose
  payload holds exactly the record's title, author and isbn.
\<close>

theorem C10_edit_submit_round_trip:
  assumes "Book.book_name b \<noteq> []" and "Book.author_name b \<noteq> []"
    and "Book.isbn b = Num n" and "\<bar>n\<bar> < 2 ^ 53"
  shows "formData (ui (handleEdit b c)) =
           \<lparr>BookFormData.book_name = Book.book_name b,
            BookFormData.author_name = Book.author_name b,
            BookFormData.isbn = toString (Book.isbn b)\<rparr>
         \<and> filter is_mutation (issued (handleEdit b c) (handleSubmit base net (handleEdit b c))) =
           [\<lparr>url = base @ ''/books/'' @ toString (id_book b), http_method = PUT,
             headers = [(''Content-Type'', ''application/json'')],
             body = Some [(''book_name'', JString (Book.book_name b)),
                          (''author_name'', JString (Book.author_name b)),
                          (''isbn'', JNumber (Book.isbn b))]\<rparr>]"
proof -
  have draft: "formData (ui (handleEdit b c)) =
           \<lparr>BookFormData.book_name = Book.book_name b,
            BookFormData.author_name = Book.author_name b,
            BookFormData.isbn = toString (Book.isbn b)\<rparr>"
    and editing: "editingBook (ui (handleEdit b c)) = Some b"
    by (simp_all add: handleEdit_def setters)
  from assms(4) have digits: "toString (Num n) \<noteq> []"
    by (rule toString_safe_not_Nil)
  from assms(1-3) digits have v: "valid_draft (formData (ui (handleEdit b c)))"
    by (simp add: draft valid_draft_def)
  from assms(4) have reads_back: "parseInt (toString (Num n)) = Num n"
    by (rule parseInt_toString)
  have built: "submit_request base (ui (handleEdit b c)) =
           \<lparr>url = base @ ''/books/'' @ toString (id_book b), http_method = PUT,
             headers = [(''Content-Type'', ''application/json'')],
             body = Some [(''book_name'', JString (Book.book_name b)),
                          (''author_name'', JString (Book.author_name b)),
                          (''isbn'', JNumber (Book.isbn b))]\<rparr>"
    using assms(3) reads_back by (simp add: submit_request_def draft editing)
  from v have "filter is_mutation (issued (handleEdit b c) (handleSubmit base net (handleEdit b c)))
      = [submit_request base (ui (handleEdit b c))]"
    by (simp add: handleSubmit_sends is_mutation_requests)
  with built draft show ?thesis by simp
qed

text \<open>
  The record \<open>dune\<close> comes back as it was.
\<close>

theorem C10_edit_submit_round_trip_witness:
  "filter is_mutation
     (issued (handleEdit dune (showing_dune [Response True None, Response True (Some [dune])]))
        (handleSubmit example_base scripted
           (handleEdit dune (showing_dune [Response True None, Response True (Some [dune])])))) =
     [\<lparr>url = ''http://localhost:8000/books/3'', http_method = PUT,
       headers = [(''Content-Type'', ''application/json'')],
       body = Some [(''book_name'', JString ''Dune''), (''author_name'', JString ''Herbert''),
                    (''isbn'', JNumber (Num 9780441013593))]\<rparr>]"
proof -
  have h: "Book.book_name dune \<noteq> []" "Book.author_name dune \<noteq> []"
    "Book.isbn dune = Num 9780441013593" "\<bar>9780441013593 :: int\<bar> < 2 ^ 53"
    by (simp_all add: dune_def)
  from C10_edit_submit_round_trip [OF h, of "showing_dune [Response True None, Response True (Some [dune])]"
    example_base scripted]
  show ?thesis by (simp add: dune_def example_base_def toString_nat_3)
qed

text \<open>
  C10 as stated, for every book record, fails in two ways. A record with an empty title
  fills a draft that the test of line 55 rejects, so nothing is sent back. A record whose
  isbn is \<open>10 ^ 21\<close>, an integer that is a double, is written by \<^verbatim>\<open>toString\<close> as
  \<^verbatim>\<open>1e+21\<close>, of which \<^verbatim>\<open>parseInt\<close> reads the digit 1 only, so the payload carries
  the isbn 1.
\<close>

theorem C10_counterexample:
  "issued (handleEdit (dune\<lparr>Book.book_name := []\<rparr>) (showing_dune [Response True None]))
     (handleSubmit example_base scripted
        (handleEdit (dune\<lparr>Book.book_name := []\<rparr>) (showing_dune [Response True None]))) = []
   \<and> map body (filter is_mutation
       (issued (handleEdit (dune\<lparr>Book.isbn := Num 1000000000000000000000\<rparr>) (showing_dune [Response True None]))
          (handleSubmit example_base scripted
             (handleEdit (dune\<lparr>Book.isbn := Num 1000000000000000000000\<rparr>) (showing_dune [Response True None]))))) =
       [Some [(''book_name'', JString ''Dune''), (''author_name'', JString ''Herbert''),
              (''isbn'', JNumber (Num 1))]]
   \<and> Num 1 \<noteq> Book.isbn (dune\<lparr>Book.isbn := Num 1000000000000000000000\<rparr>)"
proof -
  have empty_title:
    "issued (handleEdit (dune\<lparr>Book.book_name := []\<rparr>) (showing_dune [Response True None]))
       (handleSubmit example_base scripted
          (handleEdit (dune\<lparr>Book.book_name := []\<rparr>) (showing_dune [Response True None]))) = []"
    by (simp add: handleSubmit_sends valid_draft_def handleEdit_def setters)
  have draft: "formData (ui (handleEdit (dune\<lparr>Book.isbn := Num 1000000000000000000000\<rparr>) (showing_dune [Response True None])))
      = \<lparr>BookFormData.book_name = ''Dune'', BookFormData.author_name = ''Herbert'',
         BookFormData.isbn = ''1e+21''\<rparr>"
    by (simp add: handleEdit_def setters dune_def toString_nat_1e21)
  have huge: "map body (filter is_mutation
       (issued (handleEdit (dune\<lparr>Book.isbn := Num 1000000000000000000000\<rparr>) (showing_dune [Response True None]))
          (handleSubmit example_base scripted
             (handleEdit (dune\<lparr>Book.isbn := Num 1000000000000000000000\<rparr>) (showing_dune [Response True None]))))) =
       [Some [(''book_name'', JString ''Dune''), (''author_name'', JString ''Herbert''),
              (''isbn'', JNumber (Num 1))]]"
    by (simp add: handleSubmit_sends is_mutation_requests valid_draft_def draft)
       (simp add: submit_request_def draft parseInt_1e21)
  from empty_title huge show ?thesis by simp
qed

end
